theory Spec2Isabelle
  imports Main
begin

section \<open>JavaScript values\<close>

text \<open>
  The handlers of the push backend read JSON request bodies, test their fields with
  JavaScript's truthiness, and answer with JSON. \<open>jsval\<close> is the set of values that
  occur: what \<^verbatim>\<open>JSON.parse\<close> produces, \<^verbatim>\<open>undefined\<close> (the value of a field that is
  absent) and the \<^verbatim>\<open>Date\<close> objects the database driver returns for a timestamp column.
  Numbers are integers here: the code only ever asks whether a number is zero.
  An object is the list of its entries, one per key.
\<close>

datatype jsval =
    JUndefined
  | JNull
  | JBool bool
  | JNum int
  | JStr string
  | JDate nat
  | JArr "jsval list"
  | JObj "(string \<times> jsval) list"

text \<open>\<^verbatim>\<open>!v\<close> is false exactly for the truthy values.\<close>

fun truthy :: "jsval \<Rightarrow> bool" where
  "truthy JUndefined = False"
| "truthy JNull = False"
| "truthy (JBool b) = b"
| "truthy (JNum n) = (n \<noteq> 0)"
| "truthy (JStr s) = (s \<noteq> [])"
| "truthy (JDate t) = True"
| "truthy (JArr xs) = True"
| "truthy (JObj kvs) = True"

text \<open>\<^verbatim>\<open>typeof v === 'string'\<close>.\<close>

fun is_string :: "jsval \<Rightarrow> bool" where
  "is_string (JStr s) = True"
| "is_string v = False"

text \<open>\<^verbatim>\<open>Array.isArray(v)\<close> and, for an array, \<^verbatim>\<open>v.length\<close>.\<close>

fun isArray :: "jsval \<Rightarrow> bool" where
  "isArray (JArr xs) = True"
| "isArray v = False"

fun js_length :: "jsval \<Rightarrow> nat" where
  "js_length (JArr xs) = length xs"
| "js_length v = 0"

text \<open>\<^verbatim>\<open>a || b\<close>.\<close>

definition js_or :: "jsval \<Rightarrow> jsval \<Rightarrow> jsval" where
  "js_or a b = (if truthy a then a else b)"

text \<open>
  Reading a property: \<^verbatim>\<open>v.k\<close> throws a \<^verbatim>\<open>TypeError\<close> when \<open>v\<close> is \<^verbatim>\<open>null\<close> or
  \<^verbatim>\<open>undefined\<close>, is the entry of an object, and is \<^verbatim>\<open>undefined\<close> otherwise. The
  keys the code reads (\<^verbatim>\<open>data\<close>, \<^verbatim>\<open>status\<close>, \<^verbatim>\<open>message\<close>, \<^verbatim>\<open>details\<close>) are not
  properties of any prototype, so a string, number, Boolean, date or array has none
  of them.
\<close>

datatype js_error = TypeError

fun get_prop :: "jsval \<Rightarrow> string \<Rightarrow> js_error + jsval" where
  "get_prop JUndefined k = Inl TypeError"
| "get_prop JNull k = Inl TypeError"
| "get_prop (JObj kvs) k = Inr (case map_of kvs k of None \<Rightarrow> JUndefined | Some v \<Rightarrow> v)"
| "get_prop v k = Inr JUndefined"

text \<open>
  \<^verbatim>\<open>express.json()\<close> hands every handler the parsed request body, an object. The
  handlers destructure it (\<^verbatim>\<open>const { to, title, body } = req.body\<close>): a key the body
  does not have reads as \<^verbatim>\<open>undefined\<close>.
\<close>

type_synonym req_body = "(string \<times> jsval) list"

definition field :: "req_body \<Rightarrow> string \<Rightarrow> jsval" where
  "field req k = (case map_of req k of None \<Rightarrow> JUndefined | Some v \<Rightarrow> v)"

section \<open>Responses and the push API\<close>

text \<open>
  \<^verbatim>\<open>res.status(n).json(v)\<close> is the response with status \<open>n\<close> and body \<open>v\<close>;
  \<^verbatim>\<open>res.json(v)\<close> alone has status 200.
\<close>

record response =
  status :: nat
  json :: jsval

definition res_json :: "nat \<Rightarrow> jsval \<Rightarrow> response" where
  "res_json n v = \<lparr>status = n, json = v\<rparr>"

text \<open>
  The one outbound call is \<^verbatim>\<open>fetch\<close> to the Expo push endpoint followed by
  \<^verbatim>\<open>response.json()\<close>. Either promise can reject (network error, a reply that is
  not JSON); otherwise the reply is a JSON value. The push API is a function from the
  posted array of messages to that outcome, and every handler returns, beside its
  response, the list of arrays it posted, so that the calls can be counted.
\<close>

datatype fetch_result = Rejected | Resolved jsval

type_synonym push_api = "jsval \<Rightarrow> fetch_result"

definition push_failed :: response where
  "push_failed = res_json 500
     (JObj [(''ok'', JBool False), (''error'', JStr ''Push failed (server error)'')])"

text \<open>
  \<^verbatim>\<open>sendToExpo(messages, res)\<close>. The full, the in-memory and the persistent variant
  each hold a copy of this function; the three copies differ in comments only.
\<close>

definition sendToExpo :: "push_api \<Rightarrow> jsval \<Rightarrow> response \<times> jsval list" where
  "sendToExpo api messages =
     (case api messages of
        Rejected \<Rightarrow> (push_failed, [messages])
      | Resolved data \<Rightarrow>
          (case get_prop data ''data'' of
             Inl e \<Rightarrow> (push_failed, [messages])
           | Inr d \<Rightarrow>
               if \<not> isArray d \<or> js_length d = 0
               then (res_json 500
                       (JObj [(''ok'', JBool False),
                              (''error'', JStr ''Ongeldige Expo push response''),
                              (''expo'', data)]),
                     [messages])
               else (res_json 200 (JObj [(''ok'', JBool True), (''tickets'', d)]),
                     [messages])))"

text \<open>One message \<^verbatim>\<open>{ to, title, body }\<close>.\<close>

definition message_to :: "jsval \<Rightarrow> jsval \<Rightarrow> jsval \<Rightarrow> jsval" where
  "message_to to title body = JObj [(''to'', to), (''title'', title), (''body'', body)]"

text \<open>
  \<^verbatim>\<open>POST /send-notification\<close> of the full, the in-memory and the persistent variant
  (the same code in all three).
\<close>

definition send_notification :: "push_api \<Rightarrow> req_body \<Rightarrow> response \<times> jsval list" where
  "send_notification api req =
     (let to = field req ''to''; title = field req ''title''; body = field req ''body'' in
      if \<not> truthy to \<or> \<not> truthy title \<or> \<not> truthy body
      then (res_json 400
              (JObj [(''ok'', JBool False),
                     (''error'', JStr ''to, title en body zijn verplicht'')]),
            [])
      else sendToExpo api (JArr [message_to to title body]))"

text \<open>
  \<^verbatim>\<open>POST /send-notification\<close> of the single-send variant, which talks to the push API
  itself and looks at the first ticket.
\<close>

definition single_send_notification :: "push_api \<Rightarrow> req_body \<Rightarrow> response \<times> jsval list" where
  "single_send_notification api req =
     (let to = field req ''to''; title = field req ''title''; body = field req ''body'' in
      if \<not> truthy to \<or> \<not> truthy title \<or> \<not> truthy body
      then (res_json 400
              (JObj [(''ok'', JBool False),
                     (''error'', JStr ''to, title en body zijn verplicht'')]),
            [])
      else
        let messages = JArr [message_to to title body] in
        (case api messages of
           Rejected \<Rightarrow> (push_failed, [messages])
         | Resolved data \<Rightarrow>
             (case get_prop data ''data'' of
                Inl e \<Rightarrow> (push_failed, [messages])
              | Inr d \<Rightarrow>
                  if \<not> isArray d \<or> js_length d = 0
                  then (res_json 500
                          (JObj [(''ok'', JBool False),
                                 (''error'', JStr ''Ongeldige Expo push response''),
                                 (''expo'', data)]),
                        [messages])
                  else
                    (case d of
                       JArr (ticket # rest) \<Rightarrow>
                         (case get_prop ticket ''status'' of
                            Inl e \<Rightarrow> (push_failed, [messages])
                          | Inr st \<Rightarrow>
                              if st = JStr ''ok''
                              then (res_json 200
                                      (JObj [(''ok'', JBool True), (''ticket'', ticket)]),
                                    [messages])
                              else
                                (case (get_prop ticket ''message'', get_prop ticket ''details'') of
                                   (Inr m, Inr dt) \<Rightarrow>
                                     (res_json 400
                                        (JObj [(''ok'', JBool False),
                                               (''error'', js_or m (JStr ''Expo push error'')),
                                               (''details'', js_or dt JNull)]),
                                      [messages])
                                 | _ \<Rightarrow> (push_failed, [messages])))
                     | _ \<Rightarrow> (push_failed, [messages])))))"

section \<open>The store\<close>

text \<open>
  The tables \<^verbatim>\<open>expo_tokens(id, token UNIQUE, platform, created_at, last_seen_at)\<close> and
  \<^verbatim>\<open>news_items(id, title, message, created_at)\<close>, each with the sequence behind its
  \<^verbatim>\<open>SERIAL\<close> key. \<^verbatim>\<open>platform\<close> is the one nullable column. A timestamp is a reading
  of the database clock (\<^verbatim>\<open>NOW()\<close>), which every statement receives as \<open>now\<close>.
\<close>

record token_row =
  tok_id :: nat
  token :: string
  platform :: "string option"
  created_at :: nat
  last_seen_at :: nat

record news_row =
  news_id :: nat
  title :: string
  message :: string
  news_created_at :: nat

record db =
  expo_tokens :: "token_row list"
  expo_tokens_seq :: nat
  news_items :: "news_row list"
  news_items_seq :: nat

text \<open>
  A statement run through \<^verbatim>\<open>pool.query\<close> either fails (the promise rejects and the
  handler's \<^verbatim>\<open>catch\<close> runs) or returns its rows; in both cases it hands back the
  store as it is afterwards, because a statement that fails has sometimes already
  drawn a number from a sequence. The pool is \<open>Down\<close> when the database cannot be
  reached: then every statement of the request fails.
\<close>

datatype db_error = QueryFailed

datatype pool = Down | Up db

definition query :: "pool \<Rightarrow> (db \<Rightarrow> (db_error + 'a) \<times> db) \<Rightarrow> (db_error + 'a) \<times> pool" where
  "query p stmt =
     (case p of
        Down \<Rightarrow> (Inl QueryFailed, Down)
      | Up d \<Rightarrow> (case stmt d of (result, d') \<Rightarrow> (result, Up d')))"

text \<open>
  The driver sends every statement parameter as text: \<^verbatim>\<open>null\<close> and \<^verbatim>\<open>undefined\<close>
  become SQL \<^verbatim>\<open>NULL\<close>, a string is sent as it is, a Boolean as \<^verbatim>\<open>true\<close> or
  \<^verbatim>\<open>false\<close>. How the driver writes a number, a date, an array or an object is not
  part of this repository: \<open>enc\<close> stands for it.
\<close>

definition prepareValue :: "(jsval \<Rightarrow> string) \<Rightarrow> jsval \<Rightarrow> string option" where
  "prepareValue enc v =
     (case v of
        JUndefined \<Rightarrow> None
      | JNull \<Rightarrow> None
      | JStr s \<Rightarrow> Some s
      | JBool b \<Rightarrow> Some (if b then ''true'' else ''false'')
      | _ \<Rightarrow> Some (enc v))"

text \<open>
  PostgreSQL refuses a text parameter that contains the character NUL: the statement
  fails before it runs. A string here is the UTF-8 text of a JavaScript string, and
  NUL is the one character of such a text that the server does not take.
\<close>

definition valid_text :: "string \<Rightarrow> bool" where
  "valid_text s = (CHR 0x00 \<notin> set s)"

definition valid_param :: "string option \<Rightarrow> bool" where
  "valid_param q = (case q of None \<Rightarrow> True | Some s \<Rightarrow> valid_text s)"

text \<open>
  \<^verbatim>\<open>INSERT INTO expo_tokens (token, platform) VALUES ($1, $2) ON CONFLICT (token)
  DO UPDATE SET last_seen_at = NOW(), platform = COALESCE($2, expo_tokens.platform)\<close>.
  \<^item> A parameter with NUL in it makes the statement fail before it runs.
  \<^item> \<^verbatim>\<open>token\<close> is \<^verbatim>\<open>NOT NULL\<close>.
  \<^item> On a conflict the row is updated. PostgreSQL writes the updated row as a new
    row version, and a scan without \<^verbatim>\<open>ORDER BY\<close> then returns it after the rows
    that were not touched (SQL itself leaves that order open).
  \<^item> Without a conflict the row is inserted, unless its key is too long for the
    unique index on \<^verbatim>\<open>token\<close>: PostgreSQL refuses an index entry larger than a
    third of a page. Whether a long string fits depends on how well it compresses,
    which is not part of this repository: \<open>fits\<close> stands for it.
  \<^item> The sequence advances whenever the statement runs, also when the row is updated
    and when the statement then fails.
\<close>

definition upsert_token ::
  "(string \<Rightarrow> bool) \<Rightarrow> string option \<Rightarrow> string option \<Rightarrow> nat \<Rightarrow> db \<Rightarrow> (db_error + unit) \<times> db" where
  "upsert_token fits p1 p2 now d =
     (if \<not> valid_param p1 \<or> \<not> valid_param p2 then (Inl QueryFailed, d)
      else
        (case p1 of
           None \<Rightarrow> (Inl QueryFailed, d\<lparr>expo_tokens_seq := Suc (expo_tokens_seq d)\<rparr>)
         | Some tok \<Rightarrow>
             if tok \<in> set (map token (expo_tokens d))
             then (Inr (),
                   d\<lparr>expo_tokens :=
                       filter (\<lambda>r. token r \<noteq> tok) (expo_tokens d) @
                       map (\<lambda>r. r\<lparr>last_seen_at := now,
                                   platform := (case p2 of Some p \<Rightarrow> Some p
                                                 | None \<Rightarrow> platform r)\<rparr>)
                         (filter (\<lambda>r. token r = tok) (expo_tokens d)),
                     expo_tokens_seq := Suc (expo_tokens_seq d)\<rparr>)
             else if \<not> fits tok
             then (Inl QueryFailed, d\<lparr>expo_tokens_seq := Suc (expo_tokens_seq d)\<rparr>)
             else (Inr (),
                   d\<lparr>expo_tokens :=
                       expo_tokens d @
                         [\<lparr>tok_id = expo_tokens_seq d, token = tok, platform = p2,
                           created_at = now, last_seen_at = now\<rparr>],
                     expo_tokens_seq := Suc (expo_tokens_seq d)\<rparr>)))"

text \<open>\<^verbatim>\<open>SELECT COUNT(*)::int AS count FROM expo_tokens\<close>.\<close>

definition count_tokens :: "db \<Rightarrow> (db_error + nat) \<times> db" where
  "count_tokens d = (Inr (length (expo_tokens d)), d)"

text \<open>\<^verbatim>\<open>SELECT token FROM expo_tokens\<close>.\<close>

definition select_tokens :: "db \<Rightarrow> (db_error + string list) \<times> db" where
  "select_tokens d = (Inr (map token (expo_tokens d)), d)"

text \<open>
  \<^verbatim>\<open>INSERT INTO news_items (title, message) VALUES ($1, $2) RETURNING id, title,
  message, created_at AS "createdAt"\<close>. A parameter with NUL in it makes the
  statement fail before it runs. Both columns are \<^verbatim>\<open>NOT NULL\<close>; a \<^verbatim>\<open>NULL\<close> is
  refused after the id has been drawn from the sequence.
\<close>

definition insert_news ::
  "string option \<Rightarrow> string option \<Rightarrow> nat \<Rightarrow> db \<Rightarrow> (db_error + news_row) \<times> db" where
  "insert_news p1 p2 now d =
     (if \<not> valid_param p1 \<or> \<not> valid_param p2 then (Inl QueryFailed, d)
      else
        (case (p1, p2) of
           (Some t, Some m) \<Rightarrow>
             (let row = \<lparr>news_id = news_items_seq d, title = t, message = m,
                         news_created_at = now\<rparr>
              in (Inr row, d\<lparr>news_items := news_items d @ [row],
                             news_items_seq := Suc (news_items_seq d)\<rparr>))
         | _ \<Rightarrow> (Inl QueryFailed, d\<lparr>news_items_seq := Suc (news_items_seq d)\<rparr>)))"


text \<open>A news row as the JSON object the driver returns.\<close>

definition news_json :: "news_row \<Rightarrow> jsval" where
  "news_json r =
     JObj [(''id'', JNum (int (news_id r))), (''title'', JStr (title r)),
           (''message'', JStr (message r)), (''createdAt'', JDate (news_created_at r))]"

text \<open>
  \<^verbatim>\<open>!process.env.DATABASE_URL\<close>: the variable is unset or empty.
\<close>

definition configured :: "string option \<Rightarrow> bool" where
  "configured url = (case url of None \<Rightarrow> False | Some s \<Rightarrow> s \<noteq> [])"

section \<open>The handlers that use the store\<close>


text \<open>\<^verbatim>\<open>POST /news\<close> (full variant).\<close>

definition post_news ::
  "(jsval \<Rightarrow> string) \<Rightarrow> string option \<Rightarrow> pool \<Rightarrow> nat \<Rightarrow> req_body \<Rightarrow> response \<times> pool" where
  "post_news enc url p now req =
     (if \<not> configured url
      then (res_json 500
              (JObj [(''ok'', JBool False),
                     (''error'', JStr ''DATABASE_URL ontbreekt, nieuws kan niet opgeslagen worden.'')]),
            p)
      else
        let title = field req ''title''; message = field req ''message'' in
        if \<not> truthy title \<or> \<not> truthy message
        then (res_json 400
                (JObj [(''ok'', JBool False),
                       (''error'', JStr ''title en message zijn verplicht'')]),
              p)
        else
          (case query p (insert_news (prepareValue enc title) (prepareValue enc message) now) of
             (Inr created, p') \<Rightarrow> (res_json 201 (news_json created), p')
           | (Inl e, p') \<Rightarrow>
               (res_json 500
                  (JObj [(''ok'', JBool False), (''error'', JStr ''DB error bij opslaan nieuws'')]),
                p')))"

text \<open>
  \<^verbatim>\<open>POST /register-token\<close> of the full and of the persistent variant (the same code
  in both).
\<close>

definition register_token ::
  "(jsval \<Rightarrow> string) \<Rightarrow> (string \<Rightarrow> bool) \<Rightarrow> string option \<Rightarrow> pool \<Rightarrow> nat \<Rightarrow> req_body
     \<Rightarrow> response \<times> pool" where
  "register_token enc fits url p now req =
     (let token = field req ''token''; platform = field req ''platform'' in
      if \<not> truthy token \<or> \<not> is_string token
      then (res_json 400 (JObj [(''ok'', JBool False), (''error'', JStr ''Ongeldig token'')]), p)
      else if \<not> configured url
      then (res_json 200
              (JObj [(''ok'', JBool True),
                     (''warning'', JStr ''Token niet persistent opgeslagen (geen DATABASE_URL).'')]),
            p)
      else
        (case query p (upsert_token fits (prepareValue enc token)
                         (prepareValue enc (js_or platform JNull)) now) of
           (Inl e, p') \<Rightarrow>
             (res_json 500
                (JObj [(''ok'', JBool False), (''error'', JStr ''DB error bij opslaan token'')]),
              p')
         | (Inr u, p') \<Rightarrow>
             (case query p' count_tokens of
                (Inl e, p'') \<Rightarrow>
                  (res_json 500
                     (JObj [(''ok'', JBool False), (''error'', JStr ''DB error bij opslaan token'')]),
                   p'')
              | (Inr n, p'') \<Rightarrow> (res_json 200 (JObj [(''ok'', JBool True)]), p''))))"

text \<open>
  \<^verbatim>\<open>POST /broadcast\<close> of the full and of the persistent variant (the same code in
  both).
\<close>

definition broadcast :: "string option \<Rightarrow> pool \<Rightarrow> push_api \<Rightarrow> req_body \<Rightarrow> response \<times> jsval list" where
  "broadcast url p api req =
     (let title = field req ''title''; body = field req ''body'' in
      if \<not> truthy title \<or> \<not> truthy body
      then (res_json 400
              (JObj [(''ok'', JBool False), (''error'', JStr ''title en body zijn verplicht'')]),
            [])
      else if \<not> configured url
      then (res_json 500
              (JObj [(''ok'', JBool False),
                     (''error'', JStr ''DATABASE_URL ontbreekt, geen tokens beschikbaar.'')]),
            [])
      else
        (case query p select_tokens of
           (Inl e, p') \<Rightarrow>
             (res_json 500
                (JObj [(''ok'', JBool False), (''error'', JStr ''DB error bij ophalen tokens'')]),
              [])
         | (Inr rows, p') \<Rightarrow>
             if rows = []
             then (res_json 400
                     (JObj [(''ok'', JBool False),
                            (''error'', JStr ''Geen geregistreerde tokens om naar te sturen'')]),
                   [])
             else sendToExpo api (JArr (map (\<lambda>tok. message_to (JStr tok) title body) rows))))"

section \<open>The in-memory variant\<close>

text \<open>
  The tokens are a \<^verbatim>\<open>Set\<close> of strings, which keeps insertion order: a list without
  repetitions. \<^verbatim>\<open>tokens.add\<close> appends a string that is not yet a member.
\<close>

definition tokens_add :: "string list \<Rightarrow> string \<Rightarrow> string list" where
  "tokens_add tokens t = (if t \<in> set tokens then tokens else tokens @ [t])"

definition mem_register_token :: "string list \<Rightarrow> req_body \<Rightarrow> response \<times> string list" where
  "mem_register_token tokens req =
     (let token = field req ''token'' in
      if \<not> truthy token \<or> \<not> is_string token
      then (res_json 400 (JObj [(''ok'', JBool False), (''error'', JStr ''Ongeldig token'')]),
            tokens)
      else
        (case token of
           JStr t \<Rightarrow> (res_json 200 (JObj [(''ok'', JBool True)]), tokens_add tokens t)
         | _ \<Rightarrow> (res_json 200 (JObj [(''ok'', JBool True)]), tokens)))"

definition mem_broadcast :: "string list \<Rightarrow> push_api \<Rightarrow> req_body \<Rightarrow> response \<times> jsval list" where
  "mem_broadcast tokens api req =
     (let title = field req ''title''; body = field req ''body'' in
      if \<not> truthy title \<or> \<not> truthy body
      then (res_json 400
              (JObj [(''ok'', JBool False), (''error'', JStr ''title en body zijn verplicht'')]),
            [])
      else if length tokens = 0
      then (res_json 400
              (JObj [(''ok'', JBool False),
                     (''error'', JStr ''Geen geregistreerde tokens om naar te sturen'')]),
            [])
      else sendToExpo api (JArr (map (\<lambda>to. message_to (JStr to) title body) tokens)))"

section \<open>Basic facts\<close>

lemma field_absent: "map_of req k = None \<Longrightarrow> field req k = JUndefined"
  by (simp add: field_def)

lemma prepareValue_string: "prepareValue enc (JStr s) = Some s"
  by (simp add: prepareValue_def)



lemma prepareValue_truthy_Some: "truthy v \<Longrightarrow> \<exists>t. prepareValue enc v = Some t"
  by (cases v) (simp_all add: prepareValue_def)

lemma valid_param_simps:
  "valid_param None" "valid_param (Some s) = valid_text s"
  by (simp_all add: valid_param_def)

section \<open>Requests that fail validation\<close>

text \<open>
  C9. A \<^verbatim>\<open>POST /send-notification\<close> whose body lacks \<^verbatim>\<open>to\<close>, \<^verbatim>\<open>title\<close> or
  \<^verbatim>\<open>body\<close> is answered with status 400, and the handler posts nothing to the push
  API. This holds for the handler shared by the full, in-memory and persistent
  variants and for the handler of the single-send variant.
\<close>

theorem send_notification_missing_field:
  assumes "map_of req ''to'' = None \<or> map_of req ''title'' = None \<or> map_of req ''body'' = None"
  shows "status (fst (send_notification api req)) = 400
       \<and> snd (send_notification api req) = []
       \<and> status (fst (single_send_notification api req)) = 400
       \<and> snd (single_send_notification api req) = []"
  using assms
  by (auto simp: send_notification_def single_send_notification_def Let_def res_json_def
        dest: field_absent)

theorem send_notification_missing_field_witness:
  "map_of [(''to'', JStr ''ExponentPushToken[a]''), (''title'', JStr ''Hi'')] ''body'' = None
   \<and> status (fst (send_notification
        (\<lambda>m. Resolved (JObj [(''data'', JArr [JObj [(''status'', JStr ''ok'')]])]))
        [(''to'', JStr ''ExponentPushToken[a]''), (''title'', JStr ''Hi'')])) = 400
   \<and> snd (send_notification
        (\<lambda>m. Resolved (JObj [(''data'', JArr [JObj [(''status'', JStr ''ok'')]])]))
        [(''to'', JStr ''ExponentPushToken[a]''), (''title'', JStr ''Hi'')]) = []
   \<and> status (fst (single_send_notification
        (\<lambda>m. Resolved (JObj [(''data'', JArr [JObj [(''status'', JStr ''ok'')]])]))
        [(''to'', JStr ''ExponentPushToken[a]''), (''title'', JStr ''Hi'')])) = 400
   \<and> snd (single_send_notification
        (\<lambda>m. Resolved (JObj [(''data'', JArr [JObj [(''status'', JStr ''ok'')]])]))
        [(''to'', JStr ''ExponentPushToken[a]''), (''title'', JStr ''Hi'')]) = []"
  using send_notification_missing_field
    [of "[(''to'', JStr ''ExponentPushToken[a]''), (''title'', JStr ''Hi'')]"
        "\<lambda>m. Resolved (JObj [(''data'', JArr [JObj [(''status'', JStr ''ok'')]])])"]
  by simp

text \<open>
  C3. A \<^verbatim>\<open>POST /register-token\<close> whose \<^verbatim>\<open>token\<close> is absent, the empty string or
  not a string is answered with status 400 and the error \<^verbatim>\<open>Ongeldig token\<close>, and the
  store is left as it was. This holds for the handler of the full and persistent
  variants, whatever \<^verbatim>\<open>DATABASE_URL\<close> is and whether or not the database can be
  reached, and for the handler of the in-memory variant.
\<close>

theorem register_token_invalid:
  assumes "map_of req ''token'' = None \<or> field req ''token'' = JStr []
           \<or> \<not> is_string (field req ''token'')"
  shows "register_token enc fits url p now req =
           (res_json 400 (JObj [(''ok'', JBool False), (''error'', JStr ''Ongeldig token'')]), p)
       \<and> mem_register_token tokens req =
           (res_json 400 (JObj [(''ok'', JBool False), (''error'', JStr ''Ongeldig token'')]),
            tokens)"
  using assms
  by (auto simp: register_token_def mem_register_token_def Let_def dest: field_absent)

theorem register_token_invalid_witness:
  "\<not> is_string (field [(''token'', JNum 42)] ''token'')
   \<and> register_token (\<lambda>v. ''42'') (\<lambda>s. length s < 2704) None Down 5 [(''token'', JNum 42)] =
       (\<lparr>status = 400, json = JObj [(''ok'', JBool False), (''error'', JStr ''Ongeldig token'')]\<rparr>,
        Down)
   \<and> register_token (\<lambda>v. ''42'') (\<lambda>s. length s < 2704) (Some ''postgres://db'')
        (Up \<lparr>expo_tokens = [], expo_tokens_seq = 1, news_items = [], news_items_seq = 1\<rparr>) 5
        [(''token'', JNum 42)] =
       (\<lparr>status = 400, json = JObj [(''ok'', JBool False), (''error'', JStr ''Ongeldig token'')]\<rparr>,
        Up \<lparr>expo_tokens = [], expo_tokens_seq = 1, news_items = [], news_items_seq = 1\<rparr>)
   \<and> mem_register_token [''ExponentPushToken[a]''] [(''token'', JNum 42)] =
       (\<lparr>status = 400, json = JObj [(''ok'', JBool False), (''error'', JStr ''Ongeldig token'')]\<rparr>,
        [''ExponentPushToken[a]''])"
  using register_token_invalid [of "[(''token'', JNum 42)]" "\<lambda>v. ''42''"
      "\<lambda>s. length s < 2704" None Down 5 "[''ExponentPushToken[a]'']"]
    register_token_invalid [of "[(''token'', JNum 42)]" "\<lambda>v. ''42''"
      "\<lambda>s. length s < 2704" "Some ''postgres://db''"
      "Up \<lparr>expo_tokens = [], expo_tokens_seq = 1, news_items = [], news_items_seq = 1\<rparr>" 5
      "[''ExponentPushToken[a]'']"]
  by (simp add: field_def res_json_def)

text \<open>
  C2, as the code has it. A \<^verbatim>\<open>POST /news\<close> whose body lacks \<^verbatim>\<open>title\<close> or
  \<^verbatim>\<open>message\<close> is answered with status 400 when \<^verbatim>\<open>DATABASE_URL\<close> is set. When it is
  not set the handler returns status 500 before it looks at the body, so that the
  missing field is never reported. In both cases the store is left as it was.
\<close>

theorem post_news_missing_field:
  assumes "map_of req ''title'' = None \<or> map_of req ''message'' = None"
  shows "post_news enc url p now req =
           (if configured url
            then (res_json 400
                    (JObj [(''ok'', JBool False),
                           (''error'', JStr ''title en message zijn verplicht'')]), p)
            else (res_json 500
                    (JObj [(''ok'', JBool False),
                           (''error'',
                            JStr ''DATABASE_URL ontbreekt, nieuws kan niet opgeslagen worden.'')]),
                  p))"
  using assms by (auto simp: post_news_def Let_def dest: field_absent)

theorem post_news_missing_field_witness:
  "map_of [(''message'', JStr ''M'')] ''title'' = None
   \<and> post_news (\<lambda>v. []) (Some ''postgres://db'') Down 5 [(''message'', JStr ''M'')] =
       (\<lparr>status = 400,
         json = JObj [(''ok'', JBool False), (''error'', JStr ''title en message zijn verplicht'')]\<rparr>,
        Down)
   \<and> post_news (\<lambda>v. []) None Down 5 [(''message'', JStr ''M'')] =
       (\<lparr>status = 500,
         json = JObj [(''ok'', JBool False),
                      (''error'',
                       JStr ''DATABASE_URL ontbreekt, nieuws kan niet opgeslagen worden.'')]\<rparr>,
        Down)"
  using post_news_missing_field
      [of "[(''message'', JStr ''M'')]" "\<lambda>v. []" "Some ''postgres://db''" Down 5]
    post_news_missing_field [of "[(''message'', JStr ''M'')]" "\<lambda>v. []" None Down 5]
  by (simp add: res_json_def configured_def)

text \<open>
  The claim C2 as written fails: with \<^verbatim>\<open>DATABASE_URL\<close> unset, a body without
  \<^verbatim>\<open>title\<close> gets status 500, not 400.
\<close>

theorem post_news_unconfigured_counterexample:
  "map_of [(''message'', JStr ''M'')] ''title'' = None
   \<and> status (fst (post_news (\<lambda>v. []) None Down 5 [(''message'', JStr ''M'')])) = 500
   \<and> status (fst (post_news (\<lambda>v. []) None Down 5 [(''message'', JStr ''M'')])) \<noteq> 400"
  by (simp add: post_news_def configured_def res_json_def)

section \<open>Registering tokens\<close>

text \<open>
  C7. A \<^verbatim>\<open>POST /register-token\<close> with a non-empty string token, while
  \<^verbatim>\<open>DATABASE_URL\<close> is not set, is answered with status 200, \<^verbatim>\<open>ok: true\<close> and a
  \<^verbatim>\<open>warning\<close>, and the store is left as it was.
\<close>

theorem register_token_degraded:
  assumes "field req ''token'' = JStr tok" and "tok \<noteq> []" and "\<not> configured url"
  shows "register_token enc fits url p now req =
           (res_json 200
              (JObj [(''ok'', JBool True),
                     (''warning'', JStr ''Token niet persistent opgeslagen (geen DATABASE_URL).'')]),
            p)"
  using assms by (simp add: register_token_def Let_def)

theorem register_token_degraded_witness:
  "field [(''token'', JStr ''ExponentPushToken[a]''), (''platform'', JStr ''ios'')] ''token''
     = JStr ''ExponentPushToken[a]''
   \<and> ''ExponentPushToken[a]'' \<noteq> []
   \<and> \<not> configured None
   \<and> register_token (\<lambda>v. []) (\<lambda>s. length s < 2704) None
        (Up \<lparr>expo_tokens = [], expo_tokens_seq = 1, news_items = [], news_items_seq = 1\<rparr>) 5
        [(''token'', JStr ''ExponentPushToken[a]''), (''platform'', JStr ''ios'')] =
       (\<lparr>status = 200,
         json = JObj [(''ok'', JBool True),
                      (''warning'', JStr ''Token niet persistent opgeslagen (geen DATABASE_URL).'')]\<rparr>,
        Up \<lparr>expo_tokens = [], expo_tokens_seq = 1, news_items = [], news_items_seq = 1\<rparr>)"
  using register_token_degraded
    [of "[(''token'', JStr ''ExponentPushToken[a]''), (''platform'', JStr ''ios'')]"
        "''ExponentPushToken[a]''" None "\<lambda>v. []" "\<lambda>s. length s < 2704"
        "Up \<lparr>expo_tokens = [], expo_tokens_seq = 1, news_items = [], news_items_seq = 1\<rparr>" 5]
  by (simp add: field_def res_json_def configured_def)









text \<open>
  A registration whose token or platform text contains NUL is refused by the store:
  the handler answers 500 and nothing is written.
\<close>

lemma register_token_refused:
  assumes "field req ''token'' = JStr tok" and "tok \<noteq> []" and "configured url"
    and "\<not> valid_text tok
         \<or> \<not> valid_param (prepareValue enc (js_or (field req ''platform'') JNull))"
  shows "register_token enc fits url (Up d) now req =
           (res_json 500
              (JObj [(''ok'', JBool False), (''error'', JStr ''DB error bij opslaan token'')]),
            Up d)"
  using assms
  by (auto simp: register_token_def Let_def prepareValue_string query_def upsert_token_def
        valid_param_simps)




section \<open>Broadcasting\<close>

text \<open>
  C6. A \<^verbatim>\<open>POST /broadcast\<close> with truthy \<^verbatim>\<open>title\<close> and \<^verbatim>\<open>body\<close> (in particular
  non-empty strings) is answered with status 400 and the error
  \<^verbatim>\<open>Geen geregistreerde tokens om naar te sturen\<close> when no token is registered: in the
  full and persistent variants when \<^verbatim>\<open>DATABASE_URL\<close> is set and the table is empty, in
  the in-memory variant when the set is empty. Nothing is posted to the push API.
\<close>

theorem broadcast_no_recipients:
  assumes "truthy (field req ''title'')" and "truthy (field req ''body'')"
  shows "(configured url \<and> expo_tokens d = [] \<longrightarrow>
            broadcast url (Up d) api req =
              (res_json 400
                 (JObj [(''ok'', JBool False),
                        (''error'', JStr ''Geen geregistreerde tokens om naar te sturen'')]),
               []))
       \<and> mem_broadcast [] api req =
           (res_json 400
              (JObj [(''ok'', JBool False),
                     (''error'', JStr ''Geen geregistreerde tokens om naar te sturen'')]),
            [])"
  using assms
  by (simp add: broadcast_def mem_broadcast_def Let_def query_def select_tokens_def)

theorem broadcast_no_recipients_witness:
  "truthy (field [(''title'', JStr ''Hi''), (''body'', JStr ''there'')] ''title'')
   \<and> truthy (field [(''title'', JStr ''Hi''), (''body'', JStr ''there'')] ''body'')
   \<and> configured (Some ''postgres://db'')
   \<and> expo_tokens \<lparr>expo_tokens = [], expo_tokens_seq = 1, news_items = [], news_items_seq = 1\<rparr> = []
   \<and> broadcast (Some ''postgres://db'')
        (Up \<lparr>expo_tokens = [], expo_tokens_seq = 1, news_items = [], news_items_seq = 1\<rparr>)
        (\<lambda>m. Rejected) [(''title'', JStr ''Hi''), (''body'', JStr ''there'')] =
       (\<lparr>status = 400,
         json = JObj [(''ok'', JBool False),
                      (''error'', JStr ''Geen geregistreerde tokens om naar te sturen'')]\<rparr>, [])
   \<and> mem_broadcast [] (\<lambda>m. Rejected) [(''title'', JStr ''Hi''), (''body'', JStr ''there'')] =
       (\<lparr>status = 400,
         json = JObj [(''ok'', JBool False),
                      (''error'', JStr ''Geen geregistreerde tokens om naar te sturen'')]\<rparr>, [])"
  using broadcast_no_recipients
    [of "[(''title'', JStr ''Hi''), (''body'', JStr ''there'')]" "Some ''postgres://db''"
        "\<lparr>expo_tokens = [], expo_tokens_seq = 1, news_items = [], news_items_seq = 1\<rparr>"
        "\<lambda>m. Rejected"]
  by (simp add: field_def res_json_def configured_def)

section \<open>Forwarding to the push API\<close>

lemma get_prop_total: "v \<noteq> JNull \<Longrightarrow> v \<noteq> JUndefined \<Longrightarrow> \<exists>d. get_prop v k = Inr d"
  by (cases v) simp_all

lemma get_prop_any_key: "get_prop v k = Inr d \<Longrightarrow> \<exists>d'. get_prop v k' = Inr d'"
  by (cases v) simp_all

lemma not_nonempty_array:
  "(\<forall>t ts. d \<noteq> JArr (t # ts)) \<Longrightarrow> \<not> isArray d \<or> js_length d = 0"
proof (cases d)
  case (JArr xs)
  assume "\<forall>t ts. d \<noteq> JArr (t # ts)"
  with JArr have "xs = []" by (cases xs) auto
  with JArr show ?thesis by simp
qed simp_all

text \<open>
  C4, as the code has it. \<^verbatim>\<open>sendToExpo\<close> posts the messages once, and answers
  \<^item> with status 500 and \<^verbatim>\<open>Push failed (server error)\<close> when the call fails in
    transport (network error, a reply that is not JSON), and also when the reply is
    the JSON value \<^verbatim>\<open>null\<close>, whose \<^verbatim>\<open>data\<close> cannot be read;
  \<^item> with status 500, \<^verbatim>\<open>Ongeldige Expo push response\<close> and the reply itself under
    \<^verbatim>\<open>expo\<close>, for every other reply whose \<^verbatim>\<open>data\<close> is not a non-empty array;
  \<^item> with status 200 and \<^verbatim>\<open>{ok: true, tickets: data}\<close> when \<^verbatim>\<open>data\<close> is a non-empty
    array.
\<close>

theorem sendToExpo_outcomes:
  "(api messages = Rejected \<longrightarrow> fst (sendToExpo api messages) = push_failed)
   \<and> (api messages = Resolved JNull \<longrightarrow> fst (sendToExpo api messages) = push_failed)
   \<and> (\<forall>data. api messages = Resolved data \<and> data \<noteq> JNull \<and> data \<noteq> JUndefined
          \<and> (\<forall>t ts. get_prop data ''data'' \<noteq> Inr (JArr (t # ts)))
        \<longrightarrow> fst (sendToExpo api messages) =
              res_json 500
                (JObj [(''ok'', JBool False),
                       (''error'', JStr ''Ongeldige Expo push response''),
                       (''expo'', data)]))
   \<and> (\<forall>data t ts. api messages = Resolved data \<and> get_prop data ''data'' = Inr (JArr (t # ts))
        \<longrightarrow> fst (sendToExpo api messages) =
              res_json 200 (JObj [(''ok'', JBool True), (''tickets'', JArr (t # ts))]))
   \<and> snd (sendToExpo api messages) = [messages]"
proof (intro conjI allI impI)
  assume "api messages = Rejected"
  then show "fst (sendToExpo api messages) = push_failed"
    by (simp add: sendToExpo_def)
next
  assume "api messages = Resolved JNull"
  then show "fst (sendToExpo api messages) = push_failed"
    by (simp add: sendToExpo_def)
next
  fix data
  assume a: "api messages = Resolved data \<and> data \<noteq> JNull \<and> data \<noteq> JUndefined
          \<and> (\<forall>t ts. get_prop data ''data'' \<noteq> Inr (JArr (t # ts)))"
  then obtain d where d: "get_prop data ''data'' = Inr d"
    using get_prop_total by blast
  with a have "\<forall>t ts. d \<noteq> JArr (t # ts)" by simp
  then have "\<not> isArray d \<or> js_length d = 0" by (rule not_nonempty_array)
  with a d show "fst (sendToExpo api messages) =
              res_json 500
                (JObj [(''ok'', JBool False),
                       (''error'', JStr ''Ongeldige Expo push response''),
                       (''expo'', data)])"
    by (auto simp: sendToExpo_def)
next
  fix data t ts
  assume "api messages = Resolved data \<and> get_prop data ''data'' = Inr (JArr (t # ts))"
  then show "fst (sendToExpo api messages) =
              res_json 200 (JObj [(''ok'', JBool True), (''tickets'', JArr (t # ts))])"
    by (simp add: sendToExpo_def)
next
  show "snd (sendToExpo api messages) = [messages]"
    by (simp add: sendToExpo_def split: fetch_result.splits sum.splits)
qed

theorem sendToExpo_outcomes_witness:
  "fst (sendToExpo (\<lambda>m. Rejected) (JArr [])) = push_failed
   \<and> fst (sendToExpo (\<lambda>m. Resolved JNull) (JArr [])) = push_failed
   \<and> fst (sendToExpo (\<lambda>m. Resolved (JObj [(''data'', JArr [])])) (JArr [])) =
       \<lparr>status = 500,
        json = JObj [(''ok'', JBool False), (''error'', JStr ''Ongeldige Expo push response''),
                     (''expo'', JObj [(''data'', JArr [])])]\<rparr>
   \<and> fst (sendToExpo (\<lambda>m. Resolved (JObj [(''errors'', JArr [JStr ''bad''])])) (JArr [])) =
       \<lparr>status = 500,
        json = JObj [(''ok'', JBool False), (''error'', JStr ''Ongeldige Expo push response''),
                     (''expo'', JObj [(''errors'', JArr [JStr ''bad''])])]\<rparr>
   \<and> fst (sendToExpo (\<lambda>m. Resolved (JObj [(''data'', JArr [JObj [(''status'', JStr ''ok'')]])]))
        (JArr [])) =
       \<lparr>status = 200,
        json = JObj [(''ok'', JBool True),
                     (''tickets'', JArr [JObj [(''status'', JStr ''ok'')]])]\<rparr>"
  using sendToExpo_outcomes [of "\<lambda>m. Rejected" "JArr []"]
    sendToExpo_outcomes [of "\<lambda>m. Resolved JNull" "JArr []"]
    sendToExpo_outcomes [of "\<lambda>m. Resolved (JObj [(''data'', JArr [])])" "JArr []"]
    sendToExpo_outcomes [of "\<lambda>m. Resolved (JObj [(''errors'', JArr [JStr ''bad''])])" "JArr []"]
    sendToExpo_outcomes
      [of "\<lambda>m. Resolved (JObj [(''data'', JArr [JObj [(''status'', JStr ''ok'')]])])" "JArr []"]
  by (simp add: res_json_def)

text \<open>
  The claim C4 as written fails at the reply \<^verbatim>\<open>null\<close>: it has no \<^verbatim>\<open>data\<close> array,
  yet the response is the one of a transport failure and does not carry the reply
  (it has no \<^verbatim>\<open>expo\<close> entry).
\<close>

theorem sendToExpo_null_reply_counterexample:
  "get_prop JNull ''data'' = Inl TypeError
   \<and> fst (sendToExpo (\<lambda>m. Resolved JNull)
        (JArr [JObj [(''to'', JStr ''ExponentPushToken[a]''), (''title'', JStr ''Hi''),
                     (''body'', JStr ''there'')]])) =
       \<lparr>status = 500,
        json = JObj [(''ok'', JBool False), (''error'', JStr ''Push failed (server error)'')]\<rparr>
   \<and> get_prop (json (fst (sendToExpo (\<lambda>m. Resolved JNull)
        (JArr [JObj [(''to'', JStr ''ExponentPushToken[a]''), (''title'', JStr ''Hi''),
                     (''body'', JStr ''there'')]])))) ''expo'' = Inr JUndefined"
  by (simp add: sendToExpo_def push_failed_def res_json_def)

text \<open>
  C5, as the code has it. A \<^verbatim>\<open>POST /send-notification\<close> with truthy \<^verbatim>\<open>to\<close>,
  \<^verbatim>\<open>title\<close> and \<^verbatim>\<open>body\<close> reaches the push API. When the reply's \<^verbatim>\<open>data\<close> is a
  non-empty array whose first ticket has a \<^verbatim>\<open>status\<close> other than \<^verbatim>\<open>ok\<close>, the
  single-send variant answers with status 400, the ticket's \<^verbatim>\<open>message\<close> (or
  \<^verbatim>\<open>Expo push error\<close> when that is falsy) as \<^verbatim>\<open>error\<close>, and the ticket's
  \<^verbatim>\<open>details\<close> (or \<^verbatim>\<open>null\<close>). The full, in-memory and persistent variants do not
  look at the ticket: they answer with status 200 and \<^verbatim>\<open>{ok: true, tickets: data}\<close>.
\<close>

theorem send_notification_rejected_ticket:
  assumes valid: "truthy (field req ''to'')" "truthy (field req ''title'')"
      "truthy (field req ''body'')"
    and reply: "api (JArr [message_to (field req ''to'') (field req ''title'') (field req ''body'')])
                  = Resolved data"
    and tickets: "get_prop data ''data'' = Inr (JArr (ticket # rest))"
    and st: "get_prop ticket ''status'' = Inr st" and not_ok: "st \<noteq> JStr ''ok''"
  shows "(\<exists>m dt. get_prop ticket ''message'' = Inr m \<and> get_prop ticket ''details'' = Inr dt
            \<and> fst (single_send_notification api req) =
                res_json 400
                  (JObj [(''ok'', JBool False),
                         (''error'', js_or m (JStr ''Expo push error'')),
                         (''details'', js_or dt JNull)]))
       \<and> fst (send_notification api req) =
           res_json 200 (JObj [(''ok'', JBool True), (''tickets'', JArr (ticket # rest))])"
proof -
  from get_prop_any_key [OF st] obtain m where m: "get_prop ticket ''message'' = Inr m"
    by blast
  from get_prop_any_key [OF st] obtain dt where dt: "get_prop ticket ''details'' = Inr dt"
    by blast
  have single: "fst (single_send_notification api req) =
                res_json 400
                  (JObj [(''ok'', JBool False),
                         (''error'', js_or m (JStr ''Expo push error'')),
                         (''details'', js_or dt JNull)])"
    using valid reply tickets st not_ok m dt
    by (simp add: single_send_notification_def Let_def)
  have shared: "fst (send_notification api req) =
           res_json 200 (JObj [(''ok'', JBool True), (''tickets'', JArr (ticket # rest))])"
    using valid reply tickets
    by (simp add: send_notification_def sendToExpo_def Let_def)
  from m dt single shared show ?thesis by blast
qed

theorem send_notification_rejected_ticket_witness:
  "fst (single_send_notification
         (\<lambda>m. Resolved (JObj [(''data'',
                  JArr [JObj [(''status'', JStr ''error''),
                              (''message'', JStr ''DeviceNotRegistered'')]])]))
         [(''to'', JStr ''ExponentPushToken[a]''), (''title'', JStr ''Hi''),
          (''body'', JStr ''there'')]) =
     \<lparr>status = 400,
      json = JObj [(''ok'', JBool False), (''error'', JStr ''DeviceNotRegistered''),
                   (''details'', JNull)]\<rparr>
   \<and> fst (send_notification
         (\<lambda>m. Resolved (JObj [(''data'',
                  JArr [JObj [(''status'', JStr ''error''),
                              (''message'', JStr ''DeviceNotRegistered'')]])]))
         [(''to'', JStr ''ExponentPushToken[a]''), (''title'', JStr ''Hi''),
          (''body'', JStr ''there'')]) =
     \<lparr>status = 200,
      json = JObj [(''ok'', JBool True),
                   (''tickets'', JArr [JObj [(''status'', JStr ''error''),
                                             (''message'', JStr ''DeviceNotRegistered'')]])]\<rparr>"
  using send_notification_rejected_ticket
    [of "[(''to'', JStr ''ExponentPushToken[a]''), (''title'', JStr ''Hi''),
          (''body'', JStr ''there'')]"
        "\<lambda>m. Resolved (JObj [(''data'',
                  JArr [JObj [(''status'', JStr ''error''),
                              (''message'', JStr ''DeviceNotRegistered'')]])])"
        "JObj [(''data'',
                  JArr [JObj [(''status'', JStr ''error''),
                              (''message'', JStr ''DeviceNotRegistered'')]])]"
        "JObj [(''status'', JStr ''error''), (''message'', JStr ''DeviceNotRegistered'')]"
        "[]" "JStr ''error''"]
  by (simp add: field_def res_json_def js_or_def)

text \<open>
  The claim C5 as written fails in the full variant (and in the in-memory and
  persistent ones): the first ticket is an error ticket, and the response is 200.
\<close>

theorem send_notification_rejected_ticket_counterexample:
  "get_prop (JObj [(''status'', JStr ''error''), (''message'', JStr ''DeviceNotRegistered'')])
     ''status'' = Inr (JStr ''error'')
   \<and> send_notification
         (\<lambda>m. Resolved (JObj [(''data'',
                  JArr [JObj [(''status'', JStr ''error''),
                              (''message'', JStr ''DeviceNotRegistered'')]])]))
         [(''to'', JStr ''ExponentPushToken[a]''), (''title'', JStr ''Hi''),
          (''body'', JStr ''there'')] =
     (\<lparr>status = 200,
       json = JObj [(''ok'', JBool True),
                    (''tickets'', JArr [JObj [(''status'', JStr ''error''),
                                              (''message'', JStr ''DeviceNotRegistered'')]])]\<rparr>,
      [JArr [JObj [(''to'', JStr ''ExponentPushToken[a]''), (''title'', JStr ''Hi''),
                   (''body'', JStr ''there'')]]])"
  by (simp add: send_notification_def sendToExpo_def field_def res_json_def message_to_def)

section \<open>News\<close>


text \<open>
  A news item whose title or message contains NUL is refused by the store: the
  handler answers 500 and nothing is inserted.
\<close>

lemma post_news_refused:
  assumes "configured url" and "T \<noteq> []" and "M \<noteq> []"
    and "\<not> valid_text T \<or> \<not> valid_text M"
  shows "post_news enc url (Up d) now [(''title'', JStr T), (''message'', JStr M)] =
           (res_json 500
              (JObj [(''ok'', JBool False), (''error'', JStr ''DB error bij opslaan nieuws'')]),
            Up d)"
  using assms
  by (auto simp: post_news_def field_def Let_def prepareValue_string query_def insert_news_def
        valid_param_simps)



section \<open>What validation tests\<close>

text \<open>
  C10. The handlers for \<^verbatim>\<open>/send-notification\<close>, \<^verbatim>\<open>/broadcast\<close> and \<^verbatim>\<open>POST /news\<close>
  test their fields for truthiness only. A value \<open>v\<close> that is truthy and not a
  string (the number 7, an array) passes: it is posted to the push API inside the
  messages, and \<^verbatim>\<open>POST /news\<close> inserts the text the driver sends for it (unless
  that text contains NUL, which the store refuses with status 500). The same
  value as \<^verbatim>\<open>token\<close> is refused by \<^verbatim>\<open>/register-token\<close> with status 400, in the
  persistent and in the in-memory variant.
\<close>

theorem validation_by_truthiness:
  assumes v: "truthy v" and ns: "\<not> is_string v"
    and conf: "configured url" and toks: "expo_tokens d \<noteq> []" and mem: "tokens \<noteq> []"
  shows "snd (send_notification api [(''to'', v), (''title'', v), (''body'', v)])
           = [JArr [message_to v v v]]
       \<and> snd (single_send_notification api [(''to'', v), (''title'', v), (''body'', v)])
           = [JArr [message_to v v v]]
       \<and> snd (broadcast url (Up d) api [(''title'', v), (''body'', v)])
           = [JArr (map (\<lambda>tok. message_to (JStr tok) v v) (map token (expo_tokens d)))]
       \<and> snd (mem_broadcast tokens api [(''title'', v), (''body'', v)])
           = [JArr (map (\<lambda>tok. message_to (JStr tok) v v) tokens)]
       \<and> (\<exists>t. prepareValue enc v = Some t
            \<and> post_news enc url (Up d) now [(''title'', v), (''message'', v)] =
                (if valid_text t
                 then (res_json 201
                         (news_json \<lparr>news_id = news_items_seq d, title = t, message = t,
                                     news_created_at = now\<rparr>),
                       Up (d\<lparr>news_items := news_items d @
                                [\<lparr>news_id = news_items_seq d, title = t, message = t,
                                  news_created_at = now\<rparr>],
                              news_items_seq := Suc (news_items_seq d)\<rparr>))
                 else (res_json 500
                         (JObj [(''ok'', JBool False),
                                (''error'', JStr ''DB error bij opslaan nieuws'')]),
                       Up d)))
       \<and> register_token enc fits url (Up d) now [(''token'', v)] =
           (res_json 400 (JObj [(''ok'', JBool False), (''error'', JStr ''Ongeldig token'')]), Up d)
       \<and> mem_register_token tokens [(''token'', v)] =
           (res_json 400 (JObj [(''ok'', JBool False), (''error'', JStr ''Ongeldig token'')]),
            tokens)"
proof -
  have s1: "snd (send_notification api [(''to'', v), (''title'', v), (''body'', v)])
           = [JArr [message_to v v v]]"
    using v
    by (simp add: send_notification_def sendToExpo_def field_def Let_def
          split: fetch_result.splits sum.splits)
  have s2: "snd (single_send_notification api [(''to'', v), (''title'', v), (''body'', v)])
           = [JArr [message_to v v v]]"
    using v
    by (simp add: single_send_notification_def field_def Let_def
          split: fetch_result.splits sum.splits jsval.splits list.splits prod.splits)
  have s3: "snd (broadcast url (Up d) api [(''title'', v), (''body'', v)])
           = [JArr (map (\<lambda>tok. message_to (JStr tok) v v) (map token (expo_tokens d)))]"
    using v conf toks
    by (simp add: broadcast_def sendToExpo_def field_def Let_def query_def select_tokens_def
          split: fetch_result.splits sum.splits)
  have s4: "snd (mem_broadcast tokens api [(''title'', v), (''body'', v)])
           = [JArr (map (\<lambda>tok. message_to (JStr tok) v v) tokens)]"
    using v mem
    by (simp add: mem_broadcast_def sendToExpo_def field_def Let_def
          split: fetch_result.splits sum.splits)
  from prepareValue_truthy_Some [OF v, of enc] obtain t where t: "prepareValue enc v = Some t"
    by blast
  have s5: "post_news enc url (Up d) now [(''title'', v), (''message'', v)] =
                (if valid_text t
                 then (res_json 201
                         (news_json \<lparr>news_id = news_items_seq d, title = t, message = t,
                                     news_created_at = now\<rparr>),
                       Up (d\<lparr>news_items := news_items d @
                                [\<lparr>news_id = news_items_seq d, title = t, message = t,
                                  news_created_at = now\<rparr>],
                              news_items_seq := Suc (news_items_seq d)\<rparr>))
                 else (res_json 500
                         (JObj [(''ok'', JBool False),
                                (''error'', JStr ''DB error bij opslaan nieuws'')]),
                       Up d))"
    using v conf t
    by (simp add: post_news_def field_def Let_def query_def insert_news_def valid_param_simps)
  have s6: "register_token enc fits url (Up d) now [(''token'', v)] =
           (res_json 400 (JObj [(''ok'', JBool False), (''error'', JStr ''Ongeldig token'')]), Up d)"
    using ns by (simp add: register_token_def field_def Let_def)
  have s7: "mem_register_token tokens [(''token'', v)] =
           (res_json 400 (JObj [(''ok'', JBool False), (''error'', JStr ''Ongeldig token'')]),
            tokens)"
    using ns by (simp add: mem_register_token_def field_def Let_def)
  from s1 s2 s3 s4 t s5 s6 s7 show ?thesis by blast
qed

theorem validation_by_truthiness_witness:
  "truthy (JNum 7) \<and> \<not> is_string (JNum 7)
   \<and> snd (send_notification (\<lambda>m. Rejected)
            [(''to'', JNum 7), (''title'', JNum 7), (''body'', JNum 7)])
       = [JArr [JObj [(''to'', JNum 7), (''title'', JNum 7), (''body'', JNum 7)]]]
   \<and> snd (broadcast (Some ''postgres://db'')
            (Up \<lparr>expo_tokens = [\<lparr>tok_id = 1, token = ''ExponentPushToken[a]'', platform = None,
                                  created_at = 3, last_seen_at = 3\<rparr>],
                 expo_tokens_seq = 2, news_items = [], news_items_seq = 1\<rparr>)
            (\<lambda>m. Rejected) [(''title'', JNum 7), (''body'', JNum 7)])
       = [JArr [JObj [(''to'', JStr ''ExponentPushToken[a]''), (''title'', JNum 7),
                      (''body'', JNum 7)]]]
   \<and> snd (post_news (\<lambda>v. ''7'') (Some ''postgres://db'')
            (Up \<lparr>expo_tokens = [\<lparr>tok_id = 1, token = ''ExponentPushToken[a]'', platform = None,
                                  created_at = 3, last_seen_at = 3\<rparr>],
                 expo_tokens_seq = 2, news_items = [], news_items_seq = 1\<rparr>)
            5 [(''title'', JNum 7), (''message'', JNum 7)])
       = Up \<lparr>expo_tokens = [\<lparr>tok_id = 1, token = ''ExponentPushToken[a]'', platform = None,
                                  created_at = 3, last_seen_at = 3\<rparr>],
             expo_tokens_seq = 2,
             news_items = [\<lparr>news_id = 1, title = ''7'', message = ''7'', news_created_at = 5\<rparr>],
             news_items_seq = 2\<rparr>
   \<and> status (fst (register_token (\<lambda>v. ''7'') (\<lambda>s. length s < 2704) (Some ''postgres://db'')
            (Up \<lparr>expo_tokens = [\<lparr>tok_id = 1, token = ''ExponentPushToken[a]'', platform = None,
                                  created_at = 3, last_seen_at = 3\<rparr>],
                 expo_tokens_seq = 2, news_items = [], news_items_seq = 1\<rparr>)
            5 [(''token'', JNum 7)])) = 400"
  using validation_by_truthiness
    [of "JNum 7" "Some ''postgres://db''"
        "\<lparr>expo_tokens = [\<lparr>tok_id = 1, token = ''ExponentPushToken[a]'', platform = None,
                                  created_at = 3, last_seen_at = 3\<rparr>],
                 expo_tokens_seq = 2, news_items = [], news_items_seq = 1\<rparr>"
        "[''ExponentPushToken[a]'']" "\<lambda>m. Rejected" "\<lambda>v. ''7''" 5
        "\<lambda>s. length s < 2704"]
  by (simp add: configured_def res_json_def message_to_def prepareValue_def valid_text_def)

end
